theory Spec2Isabelle
  imports Complex_Main "HOL-Library.Sublist"
begin

section \<open>Python values, strings and exceptions\<close>

text \<open>
  The gateway in \<^verbatim>\<open>src/api/index.py\<close> is three FastAPI route handlers around the
  third-party library \<^verbatim>\<open>youtube_transcript_api\<close>. The handlers are embedded as HOL
  functions of the provider (a record of the library's entry points, taken as a
  parameter) and of the request parameters; they return the handler's outcome together
  with the list of calls made into the provider, in the order they were made.

  A Python \<^verbatim>\<open>str\<close> is a \<^typ>\<open>string\<close>; a \<^typ>\<open>char\<close> is read as a code point
  below 256. A caption entry of the provider is a Python dict whose values are strings
  or floats. The floats are only ever copied, so their type is the parameter \<open>'n\<close>.
\<close>

datatype 'n pyval = Str string | Num 'n

text \<open>
  \<^verbatim>\<open>str.isspace\<close> on the code points below 256: TAB, LF, VT, FF, CR, the separators
  FS, GS, RS, US, the space, NEL (0x85) and the no-break space (0xA0).
\<close>

definition isspace :: "char \<Rightarrow> bool" where
  "isspace c =
     (let n = (of_char c :: nat)
      in (9 \<le> n \<and> n \<le> 13) \<or> (28 \<le> n \<and> n \<le> 32) \<or> n = 133 \<or> n = 160)"

text \<open>\<^verbatim>\<open>s.strip()\<close>: whitespace removed at both ends.\<close>

definition strip :: "string \<Rightarrow> string" where
  "strip s = dropWhile isspace (rev (dropWhile isspace (rev s)))"

text \<open>\<^verbatim>\<open>sep.join(xs)\<close>.\<close>

fun join :: "string \<Rightarrow> string list \<Rightarrow> string" where
  "join sep [] = []"
| "join sep [s] = s"
| "join sep (s # t # ts) = s @ sep @ join sep (t # ts)"

text \<open>
  An exception is either FastAPI's \<^verbatim>\<open>HTTPException(status_code, detail)\<close> or any other
  \<^verbatim>\<open>Exception\<close>, of which the handlers only ever read \<^verbatim>\<open>str(e)\<close>. Both are
  subclasses of \<^verbatim>\<open>Exception\<close>: a clause \<^verbatim>\<open>except Exception\<close> catches either.
\<close>

datatype exn = HTTPException nat string | Exception string

text \<open>\<^verbatim>\<open>str(KeyError(k))\<close> is the \<^verbatim>\<open>repr\<close> of the key: the key between single quotes.\<close>

definition KeyError :: "string \<Rightarrow> exn" where
  "KeyError k = Exception ([CHR 0x27] @ k @ [CHR 0x27])"

text \<open>The \<^verbatim>\<open>TypeError\<close> of \<^verbatim>\<open>x + " "\<close> for a float \<^verbatim>\<open>x\<close>.\<close>

definition TypeError_float_plus_str :: exn where
  "TypeError_float_plus_str =
     Exception (''unsupported operand type(s) for +: '' @ [CHR 0x27] @ ''float'' @ [CHR 0x27]
                @ '' and '' @ [CHR 0x27] @ ''str'' @ [CHR 0x27])"

section \<open>The transcript provider\<close>

text \<open>A caption entry as the provider returns it: a dict.\<close>

type_synonym 'n entry = "string \<rightharpoonup> 'n pyval"

text \<open>The attributes the handlers read of a \<^verbatim>\<open>Transcript\<close> object of the library.\<close>

record Transcript =
  language :: string
  language_code :: string
  is_generated :: bool
  is_translatable :: bool

text \<open>The dict \<^verbatim>\<open>{"http": proxy, "https": proxy}\<close>, in insertion order.\<close>

type_synonym proxies = "(string \<times> string) list"

text \<open>
  The library's entry points. A call either returns (\<open>Inr\<close>) or raises an exception
  whose \<^verbatim>\<open>str\<close> is the message (\<open>Inl\<close>). An optional keyword argument that the
  call site leaves out is \<open>None\<close>.
  \<^item> \<open>api_get_transcript video_id languages proxies\<close> is
    \<^verbatim>\<open>YouTubeTranscriptApi.get_transcript(video_id, languages=.., proxies=..)\<close>;
  \<^item> \<open>api_list_transcripts video_id\<close> is \<^verbatim>\<open>YouTubeTranscriptApi.list_transcripts(video_id)\<close>;
  \<^item> \<open>find_transcript transcript_list codes\<close> is \<^verbatim>\<open>transcript_list.find_transcript(codes)\<close>;
  \<^item> \<open>fetch t\<close> is \<^verbatim>\<open>t.fetch()\<close>.
\<close>

record 'n provider =
  api_get_transcript :: "string \<Rightarrow> string list option \<Rightarrow> proxies option \<Rightarrow> string + 'n entry list"
  api_list_transcripts :: "string \<Rightarrow> string + Transcript list"
  find_transcript :: "Transcript list \<Rightarrow> string list \<Rightarrow> string + Transcript"
  fetch :: "Transcript \<Rightarrow> string + 'n entry list"

text \<open>A call into the provider, with its arguments.\<close>

datatype call =
    GetTranscript string "string list option" "proxies option"
  | ListTranscripts string
  | FindTranscript "Transcript list" "string list"
  | Fetch Transcript

fun is_fetch :: "call \<Rightarrow> bool" where
  "is_fetch (GetTranscript v ls px) = True"
| "is_fetch (ListTranscripts v) = False"
| "is_fetch (FindTranscript ts ls) = False"
| "is_fetch (Fetch t) = True"

section \<open>The response envelopes\<close>

text \<open>The dict built for each entry: exactly the keys text, start and duration.\<close>

record 'n caption_entry =
  "text" :: "'n pyval"
  start :: "'n pyval"
  duration :: "'n pyval"

text \<open>
  The body of the two transcript routes. The default route's dict has no key
  \<^verbatim>\<open>"language"\<close>: the field is \<open>None\<close> there.
\<close>

record 'n response =
  video_id :: string
  language :: "string option"
  transcript :: "'n caption_entry list"
  full_text :: string
  total_entries :: nat
  proxy_used :: bool

text \<open>The body of the language-listing route.\<close>

record languages_response =
  video_id :: string
  available_languages :: "Transcript list"
  total_languages :: nat
  proxy_used :: bool

section \<open>Shared pieces of the handlers\<close>

text \<open>
  \<^verbatim>\<open>proxies = None; if proxy: proxies = {"http": proxy, "https": proxy}\<close>:
  the query parameter is absent (\<open>None\<close>) or a string, and the empty string is falsy.
\<close>

definition proxies_of :: "string option \<Rightarrow> proxies option" where
  "proxies_of proxy =
     (case proxy of
        None \<Rightarrow> None
      | Some u \<Rightarrow> if u = [] then None else Some [(''http'', u), (''https'', u)])"

text \<open>\<^verbatim>\<open>if proxies:\<close> on a value that is \<^verbatim>\<open>None\<close> or a dict.\<close>

fun truthy :: "proxies option \<Rightarrow> bool" where
  "truthy None = False"
| "truthy (Some d) = (d \<noteq> [])"

text \<open>
  The formatting loop (lines 66 to 76, and again 132 to 142), with its two accumulators.
  \<^verbatim>\<open>entry['text']\<close>, \<^verbatim>\<open>entry['start']\<close> and \<^verbatim>\<open>entry['duration']\<close> are read in this
  order and raise \<^verbatim>\<open>KeyError\<close> on a missing key; \<^verbatim>\<open>entry['text'] + " "\<close> raises
  \<^verbatim>\<open>TypeError\<close> when the text is not a string.
\<close>

fun format_entries ::
  "'n entry list \<Rightarrow> 'n caption_entry list \<Rightarrow> string \<Rightarrow> exn + ('n caption_entry list \<times> string)"
where
  "format_entries [] formatted_transcript full = Inr (formatted_transcript, full)"
| "format_entries (entry # rest) formatted_transcript full =
     (case entry ''text'' of
        None \<Rightarrow> Inl (KeyError ''text'')
      | Some tx \<Rightarrow>
     (case entry ''start'' of
        None \<Rightarrow> Inl (KeyError ''start'')
      | Some st \<Rightarrow>
     (case entry ''duration'' of
        None \<Rightarrow> Inl (KeyError ''duration'')
      | Some du \<Rightarrow>
     (case tx of
        Num x \<Rightarrow> Inl TypeError_float_plus_str
      | Str s \<Rightarrow>
          format_entries rest
            (formatted_transcript @ [\<lparr>text = tx, start = st, duration = du\<rparr>])
            (full @ (s @ '' ''))))))"

text \<open>
  Lines 65 to 84, and again 131 to 151: the loop, then the dict that is returned. The key
  \<^verbatim>\<open>"language"\<close> is set by the language route only. \<^verbatim>\<open>proxy is not None\<close> holds for
  every string, the empty one too.
\<close>

definition format_response ::
  "string \<Rightarrow> string option \<Rightarrow> string option \<Rightarrow> 'n entry list \<Rightarrow> exn + 'n response"
where
  "format_response vid lang proxy entries =
     (case format_entries entries [] [] of
        Inl e \<Rightarrow> Inl e
      | Inr (formatted_transcript, full) \<Rightarrow>
          Inr \<lparr>response.video_id = vid,
                response.language = lang,
                transcript = formatted_transcript,
                full_text = strip full,
                total_entries = length formatted_transcript,
                response.proxy_used = (proxy \<noteq> None)\<rparr>)"

text \<open>
  The two clauses that close the outermost \<^verbatim>\<open>try\<close> of each handler:
  \<^verbatim>\<open>except HTTPException: raise\<close>, then \<^verbatim>\<open>except Exception as e\<close> with the handler's
  mapping of \<^verbatim>\<open>str(e)\<close>.
\<close>

definition reraise :: "(string \<Rightarrow> exn) \<Rightarrow> exn + 'a \<Rightarrow> exn + 'a" where
  "reraise mapping r =
     (case r of
        Inl (HTTPException s d) \<Rightarrow> Inl (HTTPException s d)
      | Inl (Exception error_msg) \<Rightarrow> Inl (mapping error_msg)
      | Inr v \<Rightarrow> Inr v)"

section \<open>Get default transcript\<close>

definition blocking_detail :: "string \<Rightarrow> string" where
  "blocking_detail first_error =
     ''YouTube is blocking requests. Try: 1) Different video ID, 2) Add ?proxy=YOUR_PROXY_URL, 3) Try again later. Original error: ''
     @ first_error"

text \<open>
  Lines 56 and 57, the body of the innermost \<^verbatim>\<open>try\<close>:
  \<^verbatim>\<open>list_transcripts(video_id)\<close>, then \<^verbatim>\<open>find_transcript(['en', 'en-US'])\<close> on
  the list, then \<^verbatim>\<open>fetch()\<close> on the transcript found. The first that raises ends it.
\<close>

definition find_and_fetch ::
  "'n provider \<Rightarrow> string \<Rightarrow> (string + 'n entry list) \<times> call list"
where
  "find_and_fetch p vid =
     (case api_list_transcripts p vid of
        Inl e \<Rightarrow> (Inl e, [ListTranscripts vid])
      | Inr transcript_list \<Rightarrow>
     (case find_transcript p transcript_list [''en'', ''en-US''] of
        Inl e \<Rightarrow>
          (Inl e, [ListTranscripts vid, FindTranscript transcript_list [''en'', ''en-US'']])
      | Inr t \<Rightarrow>
          (fetch p t,
           [ListTranscripts vid, FindTranscript transcript_list [''en'', ''en-US''], Fetch t])))"

text \<open>
  Lines 55 to 63: the innermost \<^verbatim>\<open>try\<close> with its handler. Whatever was raised in
  the body, the handler raises the 503 error around the message of the first attempt.
\<close>

definition third_attempt ::
  "'n provider \<Rightarrow> string \<Rightarrow> string \<Rightarrow> (exn + 'n entry list) \<times> call list"
where
  "third_attempt p vid first_error =
     (let (r, calls) = find_and_fetch p vid
      in case r of
           Inl e \<Rightarrow> (Inl (HTTPException 503 (blocking_detail first_error)), calls)
         | Inr entries \<Rightarrow> (Inr entries, calls))"

text \<open>Lines 51 to 63: the \<^verbatim>\<open>try\<close> inside the handler of the first attempt.\<close>

definition second_attempt ::
  "'n provider \<Rightarrow> string \<Rightarrow> string \<Rightarrow> (exn + 'n entry list) \<times> call list"
where
  "second_attempt p vid first_error =
     (case api_get_transcript p vid (Some [''en'', ''en-US'', ''en-GB'']) None of
        Inr entries \<Rightarrow>
          (Inr entries, [GetTranscript vid (Some [''en'', ''en-US'', ''en-GB'']) None])
      | Inl second_error \<Rightarrow>
          (let (r, calls) = third_attempt p vid first_error
           in (r, GetTranscript vid (Some [''en'', ''en-US'', ''en-GB'']) None # calls)))"

text \<open>
  Lines 40 to 63. The \<^verbatim>\<open>requests.Session\<close> built at lines 44 and 45 is never used
  and makes no call.
\<close>

definition first_attempt ::
  "'n provider \<Rightarrow> string \<Rightarrow> proxies option \<Rightarrow> (exn + 'n entry list) \<times> call list"
where
  "first_attempt p vid proxies =
     (let px = (if truthy proxies then proxies else None)
      in case api_get_transcript p vid None px of
           Inr entries \<Rightarrow> (Inr entries, [GetTranscript vid None px])
         | Inl first_error \<Rightarrow>
             (let (r, calls) = second_attempt p vid first_error
              in (r, GetTranscript vid None px # calls)))"

text \<open>Lines 88 to 95: the handler of the outermost \<^verbatim>\<open>try\<close> for other exceptions.\<close>

definition transcript_error :: "string \<Rightarrow> exn" where
  "transcript_error error_msg =
     (if sublist ''No transcripts were found'' error_msg
      then HTTPException 404 ''No transcripts found for this video''
      else if sublist ''Video unavailable'' error_msg
      then HTTPException 404 ''Video not found or unavailable''
      else HTTPException 500 (''Error retrieving transcript: '' @ error_msg))"

text \<open>Lines 31 to 84: the body of the outermost \<^verbatim>\<open>try\<close>.\<close>

definition get_transcript_body ::
  "'n provider \<Rightarrow> string \<Rightarrow> string option \<Rightarrow> (exn + 'n response) \<times> call list"
where
  "get_transcript_body p vid proxy =
     (if vid = [] then (Inl (HTTPException 400 ''Invalid YouTube video ID or URL''), [])
      else
        let proxies = proxies_of proxy;
            (r, calls) = first_attempt p vid proxies
        in case r of
             Inl e \<Rightarrow> (Inl e, calls)
           | Inr entries \<Rightarrow>
               (format_response vid None proxy entries, calls))"

text \<open>The route handler: the body, under the two clauses of lines 86 to 95.\<close>

definition get_transcript ::
  "'n provider \<Rightarrow> string \<Rightarrow> string option \<Rightarrow> (exn + 'n response) \<times> call list"
where
  "get_transcript p vid proxy =
     (let (r, calls) = get_transcript_body p vid proxy
      in (reraise transcript_error r, calls))"

section \<open>Get transcript in a language\<close>

text \<open>
  Lines 121 to 129: the \<^verbatim>\<open>try\<close> inside the handler of the failed fetch. Its body
  ends in \<^verbatim>\<open>raise HTTPException(404, ...)\<close> with the language codes, and its clause
  \<^verbatim>\<open>except Exception\<close> catches every exception raised in the body.
\<close>

definition available_detail :: "string \<Rightarrow> string list \<Rightarrow> string" where
  "available_detail lc available_langs =
     ''No transcript found for language '' @ [CHR 0x27] @ lc @ [CHR 0x27]
     @ ''. Available languages: '' @ join '', '' available_langs"

definition language_detail :: "string \<Rightarrow> string" where
  "language_detail lc = ''No transcripts found for this video in language: '' @ lc"

definition suggest_alternatives ::
  "'n provider \<Rightarrow> string \<Rightarrow> string \<Rightarrow> exn \<times> call list"
where
  "suggest_alternatives p lc vid =
     (let body =
            (case api_list_transcripts p vid of
               Inl e \<Rightarrow> Exception e
             | Inr transcript_list \<Rightarrow>
                 HTTPException 404
                   (available_detail lc (map language_code transcript_list)))
      in case body of
           HTTPException s d \<Rightarrow> (HTTPException 404 (language_detail lc), [ListTranscripts vid])
         | Exception m \<Rightarrow> (HTTPException 404 (language_detail lc), [ListTranscripts vid]))"

text \<open>Lines 155 to 162.\<close>

definition language_error :: "string \<Rightarrow> string \<Rightarrow> exn" where
  "language_error lc error_msg =
     (if sublist ''No transcripts were found'' error_msg
      then HTTPException 404 (language_detail lc)
      else if sublist ''Video unavailable'' error_msg
      then HTTPException 404 ''Video not found or unavailable''
      else HTTPException 500 (''Error retrieving transcript: '' @ error_msg))"

text \<open>Lines 102 to 151: the body of the outermost \<^verbatim>\<open>try\<close>.\<close>

definition get_transcript_with_language_body ::
  "'n provider \<Rightarrow> string \<Rightarrow> string \<Rightarrow> string option \<Rightarrow> (exn + 'n response) \<times> call list"
where
  "get_transcript_with_language_body p lc vid proxy =
     (if vid = [] then (Inl (HTTPException 400 ''Invalid YouTube video ID or URL''), [])
      else
        let proxies = proxies_of proxy;
            px = (if truthy proxies then proxies else None)
        in case api_get_transcript p vid (Some [lc]) px of
             Inl e \<Rightarrow>
               (let (err, calls) = suggest_alternatives p lc vid
                in (Inl err, GetTranscript vid (Some [lc]) px # calls))
           | Inr entries \<Rightarrow>
               (format_response vid (Some lc) proxy entries,
                [GetTranscript vid (Some [lc]) px]))"

definition get_transcript_with_language ::
  "'n provider \<Rightarrow> string \<Rightarrow> string \<Rightarrow> string option \<Rightarrow> (exn + 'n response) \<times> call list"
where
  "get_transcript_with_language p lc vid proxy =
     (let (r, calls) = get_transcript_with_language_body p lc vid proxy
      in (reraise (language_error lc) r, calls))"

section \<open>List available languages\<close>

text \<open>Lines 185 to 189 and 209 to 214: the same mapping, twice.\<close>

definition languages_error :: "string \<Rightarrow> exn" where
  "languages_error error_msg =
     (if sublist ''Video unavailable'' error_msg
      then HTTPException 404 ''Video not found or unavailable''
      else HTTPException 500 (''Error retrieving languages: '' @ error_msg))"

text \<open>
  Lines 169 to 205. Both branches of \<^verbatim>\<open>if proxies:\<close> make the same call,
  \<^verbatim>\<open>list_transcripts(video_id)\<close>. The loop of lines 191 to 198 copies the four
  attributes of each transcript.
\<close>

definition get_available_languages_body ::
  "'n provider \<Rightarrow> string \<Rightarrow> string option \<Rightarrow> (exn + languages_response) \<times> call list"
where
  "get_available_languages_body p vid proxy =
     (if vid = [] then (Inl (HTTPException 400 ''Invalid YouTube video ID or URL''), [])
      else
        let proxies = proxies_of proxy
        in case (if truthy proxies then api_list_transcripts p vid
                 else api_list_transcripts p vid) of
             Inl e \<Rightarrow> (Inl (languages_error e), [ListTranscripts vid])
           | Inr transcript_list \<Rightarrow>
               (let available = map (\<lambda>t. \<lparr>Transcript.language = Transcript.language t,
                                            language_code = language_code t,
                                            is_generated = is_generated t,
                                            is_translatable = is_translatable t\<rparr>)
                                    transcript_list
                in (Inr \<lparr>languages_response.video_id = vid,
                         available_languages = available,
                         total_languages = length available,
                         languages_response.proxy_used = (proxy \<noteq> None)\<rparr>,
                    [ListTranscripts vid])))"

definition get_available_languages ::
  "'n provider \<Rightarrow> string \<Rightarrow> string option \<Rightarrow> (exn + languages_response) \<times> call list"
where
  "get_available_languages p vid proxy =
     (let (r, calls) = get_available_languages_body p vid proxy
      in (reraise languages_error r, calls))"

section \<open>The routes\<close>

text \<open>
  The decorators of lines 9, 26, 97, 164 and 217 register five GET routes, tried in this
  order. A path template must match the whole path, and \<^verbatim>\<open>{name}\<close> in it stands for
  one or more characters other than the slash (the framework compiles it to
  \<^verbatim>\<open>[^/]+\<close>): a path parameter is never the empty string.
\<close>

definition segment :: "string \<Rightarrow> bool" where
  "segment s = (s \<noteq> [] \<and> CHR ''/'' \<notin> set s)"

text \<open>What follows the literal start \<open>pre\<close> of a template in the path, if the path has it.\<close>

definition after :: "string \<Rightarrow> string \<Rightarrow> string option" where
  "after pre path = (if prefix pre path then Some (drop (length pre) path) else None)"

datatype route =
    Route_root
  | Route_transcript string
  | Route_transcript_language string string
  | Route_languages string
  | Route_health

text \<open>\<^verbatim>\<open>/api/transcript/{video_id}\<close>, line 26.\<close>

definition transcript_route :: "string \<Rightarrow> route option" where
  "transcript_route path =
     (case after ''/api/transcript/'' path of
        None \<Rightarrow> None
      | Some v \<Rightarrow> if segment v then Some (Route_transcript v) else None)"

text \<open>
  \<^verbatim>\<open>/api/transcript-{language_code}/{video_id}\<close>, line 97: the language code runs up to
  the first slash, the video identifier is the rest.
\<close>

definition language_route :: "string \<Rightarrow> route option" where
  "language_route path =
     (case after ''/api/transcript-'' path of
        None \<Rightarrow> None
      | Some rest \<Rightarrow>
          (let lc = takeWhile (\<lambda>c. c \<noteq> CHR ''/'') rest
           in case dropWhile (\<lambda>c. c \<noteq> CHR ''/'') rest of
                [] \<Rightarrow> None
              | slash # v \<Rightarrow>
                  if lc \<noteq> [] \<and> segment v then Some (Route_transcript_language lc v) else None))"

text \<open>\<^verbatim>\<open>/api/transcript_languages/{video_id}\<close>, line 164.\<close>

definition languages_route :: "string \<Rightarrow> route option" where
  "languages_route path =
     (case after ''/api/transcript_languages/'' path of
        None \<Rightarrow> None
      | Some v \<Rightarrow> if segment v then Some (Route_languages v) else None)"

text \<open>The first route, in the order of registration, whose template matches the path.\<close>

definition match_route :: "string \<Rightarrow> route option" where
  "match_route path =
     (if path = ''/'' then Some Route_root
      else case transcript_route path of
        Some r \<Rightarrow> Some r
      | None \<Rightarrow>
     (case language_route path of
        Some r \<Rightarrow> Some r
      | None \<Rightarrow>
     (case languages_route path of
        Some r \<Rightarrow> Some r
      | None \<Rightarrow> if path = ''/health'' then Some Route_health else None)))"

text \<open>
  What a GET request is answered with: the static dict of the root or health route, the
  outcome of one of the three handlers (an \<^verbatim>\<open>HTTPException\<close> becomes the response of
  that status), the router's redirect to the path with or without its trailing slashes
  when that one matches a route, or the router's 404.
\<close>

datatype 'n reply =
    Static
  | Transcript_reply "exn + 'n response"
  | Languages_reply "exn + languages_response"
  | Redirect string
  | Not_Found

definition serve :: "'n provider \<Rightarrow> route \<Rightarrow> string option \<Rightarrow> 'n reply \<times> call list" where
  "serve p r proxy =
     (case r of
        Route_root \<Rightarrow> (Static, [])
      | Route_transcript v \<Rightarrow>
          (let (x, calls) = get_transcript p v proxy in (Transcript_reply x, calls))
      | Route_transcript_language lc v \<Rightarrow>
          (let (x, calls) = get_transcript_with_language p lc v proxy
           in (Transcript_reply x, calls))
      | Route_languages v \<Rightarrow>
          (let (x, calls) = get_available_languages p v proxy in (Languages_reply x, calls))
      | Route_health \<Rightarrow> (Static, []))"

definition other_slash :: "string \<Rightarrow> string" where
  "other_slash path =
     (if path \<noteq> [] \<and> last path = CHR ''/''
      then rev (dropWhile (\<lambda>c. c = CHR ''/'') (rev path))
      else path @ ''/'')"

text \<open>
  A request for \<open>path\<close>, the query parameter \<^verbatim>\<open>proxy\<close> being absent (\<open>None\<close>) or
  given.
\<close>

definition dispatch :: "'n provider \<Rightarrow> string \<Rightarrow> string option \<Rightarrow> 'n reply \<times> call list" where
  "dispatch p path proxy =
     (case match_route path of
        Some r \<Rightarrow> serve p r proxy
      | None \<Rightarrow>
          if path \<noteq> ''/'' \<and> match_route (other_slash path) \<noteq> None
          then (Redirect (other_slash path), [])
          else (Not_Found, []))"

section \<open>What a response says about the entries fetched\<close>

text \<open>The text of an entry of the provider, when it is a string.\<close>

definition entry_text :: "'n entry \<Rightarrow> string" where
  "entry_text e = (case e ''text'' of Some (Str s) \<Rightarrow> s | Some (Num x) \<Rightarrow> [] | None \<Rightarrow> [])"

text \<open>
  \<open>copied e f\<close>: the formatted entry \<open>f\<close> holds the values of the three keys of the
  provider's entry \<open>e\<close>, and the text is a string.
\<close>

definition copied :: "'n entry \<Rightarrow> 'n caption_entry \<Rightarrow> bool" where
  "copied e f =
     (e ''text'' = Some (text f) \<and> text f = Str (entry_text e)
      \<and> e ''start'' = Some (start f) \<and> e ''duration'' = Some (duration f))"

text \<open>
  \<open>reflects es r\<close>: the response \<open>r\<close> is the envelope of the entries \<open>es\<close>, as the
  data model of the specification describes it.
\<close>

definition reflects :: "'n entry list \<Rightarrow> 'n response \<Rightarrow> bool" where
  "reflects es r =
     (total_entries r = length (transcript r)
      \<and> list_all2 copied es (transcript r)
      \<and> full_text r = strip (join '' '' (map entry_text es)))"

section \<open>Providers to run the handlers on\<close>

text \<open>The video identifier of the examples of the root route.\<close>

definition example_id :: string where
  "example_id = ''dQw4w9WgXcQ''"

definition hello_world :: "real entry list" where
  "hello_world =
     [[''text'' \<mapsto> Str ''hello'', ''start'' \<mapsto> Num 0, ''duration'' \<mapsto> Num 1.5],
      [''text'' \<mapsto> Str ''world'', ''start'' \<mapsto> Num 1.5, ''duration'' \<mapsto> Num 2]]"

text \<open>The envelope of these entries for the example video.\<close>

definition hello_response :: "string option \<Rightarrow> bool \<Rightarrow> real response" where
  "hello_response lang used =
     \<lparr>response.video_id = example_id,
      response.language = lang,
      transcript = [\<lparr>text = Str ''hello'', start = Num 0, duration = Num 1.5\<rparr>,
                    \<lparr>text = Str ''world'', start = Num 1.5, duration = Num 2\<rparr>],
      full_text = ''hello world'',
      total_entries = 2,
      response.proxy_used = used\<rparr>"

definition english :: Transcript where
  "english = \<lparr>Transcript.language = ''English'', language_code = ''en'',
              is_generated = False, is_translatable = True\<rparr>"

definition not_found_msg :: string where
  "not_found_msg = ''No transcripts were found for any of the requested language codes''"

text \<open>A stand-in for the library's search: the first requested code that a transcript has.\<close>

fun first_match :: "Transcript list \<Rightarrow> string list \<Rightarrow> string + Transcript" where
  "first_match ts [] = Inl not_found_msg"
| "first_match ts (c # cs) =
     (case find (\<lambda>t. language_code t = c) ts of
        Some t \<Rightarrow> Inr t
      | None \<Rightarrow> first_match ts cs)"

text \<open>
  A provider that answers every fetch by \<open>get\<close> of the requested languages, every
  enumeration by \<open>listing\<close> and every \<^verbatim>\<open>fetch()\<close> of a transcript by \<open>fetched\<close>.
\<close>

definition stub ::
  "(string list option \<Rightarrow> string + real entry list) \<Rightarrow> (string + Transcript list)
   \<Rightarrow> (string + real entry list) \<Rightarrow> real provider"
where
  "stub get listing fetched =
     \<lparr>api_get_transcript = (\<lambda>v ls px. get ls),
      api_list_transcripts = (\<lambda>v. listing),
      find_transcript = first_match,
      fetch = (\<lambda>t. fetched)\<rparr>"

text \<open>A video whose only captions are English.\<close>

definition only_english :: "real provider" where
  "only_english =
     stub (\<lambda>ls. case ls of
                   None \<Rightarrow> Inr hello_world
                 | Some cs \<Rightarrow> if ''en'' \<in> set cs then Inr hello_world else Inl not_found_msg)
          (Inr [english]) (Inr hello_world)"

text \<open>A provider that refuses every call.\<close>

definition blocked :: "real provider" where
  "blocked = stub (\<lambda>ls. Inl not_found_msg) (Inl ''Video unavailable'') (Inl ''Video unavailable'')"

text \<open>The fetch without languages fails, the one with languages succeeds.\<close>

definition needs_languages :: "real provider" where
  "needs_languages =
     stub (\<lambda>ls. case ls of None \<Rightarrow> Inl ''Too many requests'' | Some cs \<Rightarrow> Inr hello_world)
          (Inr [english]) (Inr hello_world)"

text \<open>Both fetches fail; the enumeration and the fetch of the transcript found succeed.\<close>

definition needs_listing :: "real provider" where
  "needs_listing = stub (\<lambda>ls. Inl ''Too many requests'') (Inr [english]) (Inr hello_world)"

text \<open>A provider whose entries lack the key \<^verbatim>\<open>text\<close>.\<close>

definition malformed :: "real provider" where
  "malformed = stub (\<lambda>ls. Inr [[''start'' \<mapsto> Num 0, ''duration'' \<mapsto> Num 1]]) (Inr []) (Inr [])"

section \<open>Strings\<close>

lemma isspace_space: "isspace (CHR '' '')"
  by (simp add: isspace_def)

lemma strip_append_space: "strip (s @ '' '') = strip s"
  by (simp add: strip_def isspace_space)

lemma concat_join:
  "concat (map (\<lambda>s. s @ '' '') xs) = (if xs = [] then [] else join '' '' xs @ '' '')"
  by (induction "'' ''" xs rule: join.induct) auto

lemma strip_concat_join: "strip (concat (map (\<lambda>s. s @ '' '') xs)) = strip (join '' '' xs)"
  by (simp add: concat_join strip_append_space del: append.simps)

lemma sublist_left: "sublist xs ys \<Longrightarrow> sublist xs (ys @ zs)"
  by (metis sublist_append)

lemma blocking_detail_hints:
  "sublist ''Different video ID'' (blocking_detail m)
   \<and> sublist ''Add ?proxy=YOUR_PROXY_URL'' (blocking_detail m)
   \<and> sublist ''Try again later'' (blocking_detail m)
   \<and> suffix m (blocking_detail m)"
proof (intro conjI)
  show "sublist ''Different video ID'' (blocking_detail m)"
    unfolding blocking_detail_def by (rule sublist_left) code_simp
  show "sublist ''Add ?proxy=YOUR_PROXY_URL'' (blocking_detail m)"
    unfolding blocking_detail_def by (rule sublist_left) code_simp
  show "sublist ''Try again later'' (blocking_detail m)"
    unfolding blocking_detail_def by (rule sublist_left) code_simp
  show "suffix m (blocking_detail m)"
    unfolding blocking_detail_def by (rule suffix_appendI) simp
qed

section \<open>The formatting loop\<close>

text \<open>
  The loop only appends: when it returns, the formatted list is the initial one followed
  by one copy per entry, in order, and the text is the initial one followed by each
  entry's text and a space.
\<close>

lemma format_entries_Inr:
  "format_entries es ft full = Inr (ft', full') \<Longrightarrow>
     \<exists>fs. ft' = ft @ fs \<and> list_all2 copied es fs
          \<and> full' = full @ concat (map (\<lambda>s. s @ '' '') (map entry_text es))"
proof (induction es arbitrary: ft full)
  case Nil
  then show ?case by simp
next
  case (Cons e es)
  from Cons.prems obtain tx st du s where
    e: "e ''text'' = Some tx" "e ''start'' = Some st" "e ''duration'' = Some du" "tx = Str s"
    and rest: "format_entries es (ft @ [\<lparr>text = tx, start = st, duration = du\<rparr>])
                 (full @ (s @ '' '')) = Inr (ft', full')"
    by (auto split: option.splits pyval.splits)
  from Cons.IH [OF rest] obtain fs where
    fs: "ft' = (ft @ [\<lparr>text = tx, start = st, duration = du\<rparr>]) @ fs" "list_all2 copied es fs"
        "full' = (full @ (s @ '' '')) @ concat (map (\<lambda>s. s @ '' '') (map entry_text es))"
    by blast
  have c: "copied e \<lparr>text = tx, start = st, duration = du\<rparr>"
    using e by (simp add: copied_def entry_text_def)
  have t: "entry_text e = s"
    using e by (simp add: entry_text_def)
  show ?case
    using fs c t by (intro exI [of _ "\<lparr>text = tx, start = st, duration = du\<rparr> # fs"]) simp
qed

lemma format_response_Inr:
  assumes "format_response vid lang proxy es = Inr r"
  shows "reflects es r \<and> response.language r = lang
         \<and> response.proxy_used r = (proxy \<noteq> None) \<and> response.video_id r = vid"
proof -
  from assms obtain ft full where
    fe: "format_entries es [] [] = Inr (ft, full)"
    and r: "r = \<lparr>response.video_id = vid, language = lang, transcript = ft,
                 full_text = strip full, total_entries = length ft,
                 response.proxy_used = (proxy \<noteq> None)\<rparr>"
    by (auto simp: format_response_def split: sum.splits)
  from format_entries_Inr [OF fe]
  have c: "list_all2 copied es ft"
    and f: "full = concat (map (\<lambda>s. s @ '' '') (map entry_text es))"
    by auto
  have "strip full = strip (join '' '' (map entry_text es))"
    unfolding f by (rule strip_concat_join)
  with c r show ?thesis
    by (simp add: reflects_def)
qed

text \<open>
  What the loop can raise: a \<^verbatim>\<open>KeyError\<close> for one of the three keys or the
  \<^verbatim>\<open>TypeError\<close> of a text that is not a string. None of these texts contains a
  pattern that the handlers look for.
\<close>

lemma format_entries_Inl:
  "format_entries es ft full = Inl x \<Longrightarrow>
     x = KeyError ''text'' \<or> x = KeyError ''start'' \<or> x = KeyError ''duration''
     \<or> x = TypeError_float_plus_str"
  by (induction es arbitrary: ft full) (auto split: option.splits pyval.splits)

lemma format_errors_unknown:
  assumes "x = KeyError ''text'' \<or> x = KeyError ''start'' \<or> x = KeyError ''duration''
     \<or> x = TypeError_float_plus_str"
  shows "\<exists>msg. x = Exception msg \<and> \<not> sublist ''No transcripts were found'' msg
               \<and> \<not> sublist ''Video unavailable'' msg"
proof -
  have "\<not> sublist ''No transcripts were found'' ([CHR 0x27] @ ''text'' @ [CHR 0x27])"
       "\<not> sublist ''Video unavailable'' ([CHR 0x27] @ ''text'' @ [CHR 0x27])"
       "\<not> sublist ''No transcripts were found'' ([CHR 0x27] @ ''start'' @ [CHR 0x27])"
       "\<not> sublist ''Video unavailable'' ([CHR 0x27] @ ''start'' @ [CHR 0x27])"
       "\<not> sublist ''No transcripts were found'' ([CHR 0x27] @ ''duration'' @ [CHR 0x27])"
       "\<not> sublist ''Video unavailable'' ([CHR 0x27] @ ''duration'' @ [CHR 0x27])"
    by (simp_all add: sublist_code)
  moreover have
    "\<not> sublist ''No transcripts were found''
        (''unsupported operand type(s) for +: '' @ [CHR 0x27] @ ''float'' @ [CHR 0x27]
         @ '' and '' @ [CHR 0x27] @ ''str'' @ [CHR 0x27])"
    "\<not> sublist ''Video unavailable''
        (''unsupported operand type(s) for +: '' @ [CHR 0x27] @ ''float'' @ [CHR 0x27]
         @ '' and '' @ [CHR 0x27] @ ''str'' @ [CHR 0x27])"
    by (simp_all add: sublist_code)
  ultimately show ?thesis
    using assms unfolding KeyError_def TypeError_float_plus_str_def by blast
qed

lemma format_response_Inl:
  assumes "format_response vid lang proxy es = Inl x"
  shows "format_entries es [] [] = Inl x"
  using assms by (auto simp: format_response_def split: sum.splits)

section \<open>The handlers, case by case\<close>

lemma truthy_proxies_of:
  "(if truthy (proxies_of proxy) then proxies_of proxy else None) = proxies_of proxy"
  by (simp add: proxies_of_def split: option.splits)

lemma reraise_Inr: "reraise m x = Inr r \<longleftrightarrow> x = Inr r"
  by (auto simp: reraise_def split: sum.splits exn.splits)

lemma reraise_HTTP: "reraise m (Inl (HTTPException s d)) = Inl (HTTPException s d)"
  by (simp add: reraise_def)

lemma first_attempt_unfold:
  "first_attempt p vid (proxies_of proxy) =
     (case api_get_transcript p vid None (proxies_of proxy) of
        Inr es \<Rightarrow> (Inr es, [GetTranscript vid None (proxies_of proxy)])
      | Inl first_error \<Rightarrow>
     (case api_get_transcript p vid (Some [''en'', ''en-US'', ''en-GB'']) None of
        Inr es \<Rightarrow>
          (Inr es, [GetTranscript vid None (proxies_of proxy),
                    GetTranscript vid (Some [''en'', ''en-US'', ''en-GB'']) None])
      | Inl second_error \<Rightarrow>
     (case fst (find_and_fetch p vid) of
        Inr es \<Rightarrow>
          (Inr es, GetTranscript vid None (proxies_of proxy)
                   # GetTranscript vid (Some [''en'', ''en-US'', ''en-GB'']) None
                   # snd (find_and_fetch p vid))
      | Inl third_error \<Rightarrow>
          (Inl (HTTPException 503 (blocking_detail first_error)),
           GetTranscript vid None (proxies_of proxy)
           # GetTranscript vid (Some [''en'', ''en-US'', ''en-GB'']) None
           # snd (find_and_fetch p vid)))))"
  unfolding first_attempt_def Let_def truthy_proxies_of
  by (simp add: second_attempt_def third_attempt_def Let_def split: prod.splits sum.splits)

lemma get_transcript_unfold:
  "vid \<noteq> [] \<Longrightarrow>
   get_transcript p vid proxy =
     (case first_attempt p vid (proxies_of proxy) of
        (Inl e, calls) \<Rightarrow> (reraise transcript_error (Inl e), calls)
      | (Inr es, calls) \<Rightarrow> (reraise transcript_error (format_response vid None proxy es), calls))"
  by (simp add: get_transcript_def get_transcript_body_def split: prod.splits sum.splits)

lemma get_transcript_with_language_unfold:
  "vid \<noteq> [] \<Longrightarrow>
   get_transcript_with_language p lc vid proxy =
     (case api_get_transcript p vid (Some [lc]) (proxies_of proxy) of
        Inl e \<Rightarrow>
          (Inl (HTTPException 404 (language_detail lc)),
           [GetTranscript vid (Some [lc]) (proxies_of proxy), ListTranscripts vid])
      | Inr es \<Rightarrow>
          (reraise (language_error lc) (format_response vid (Some lc) proxy es),
           [GetTranscript vid (Some [lc]) (proxies_of proxy)]))"
  unfolding get_transcript_with_language_def get_transcript_with_language_body_def Let_def
    truthy_proxies_of
  by (simp add: suggest_alternatives_def reraise_def Let_def split: sum.splits)

lemma get_transcript_Inr:
  assumes "fst (get_transcript p vid proxy) = Inr r"
  shows "\<exists>es. fst (first_attempt p vid (proxies_of proxy)) = Inr es
              \<and> format_response vid None proxy es = Inr r"
proof (cases "vid = []")
  case True
  with assms show ?thesis
    by (simp add: get_transcript_def get_transcript_body_def reraise_def)
next
  case False
  with assms show ?thesis
    by (auto simp: get_transcript_unfold reraise_Inr split: prod.splits sum.splits)
qed

lemma get_transcript_with_language_Inr:
  assumes "fst (get_transcript_with_language p lc vid proxy) = Inr r"
  shows "\<exists>es. api_get_transcript p vid (Some [lc]) (proxies_of proxy) = Inr es
              \<and> format_response vid (Some lc) proxy es = Inr r"
proof (cases "vid = []")
  case True
  with assms show ?thesis
    by (simp add: get_transcript_with_language_def get_transcript_with_language_body_def
        reraise_def)
next
  case False
  with assms show ?thesis
    by (auto simp: get_transcript_with_language_unfold reraise_Inr split: sum.splits)
qed

lemma get_available_languages_Inr:
  "fst (get_available_languages p vid proxy) = Inr r \<Longrightarrow>
     languages_response.proxy_used r = (proxy \<noteq> None)"
  by (auto simp: get_available_languages_def get_available_languages_body_def reraise_def Let_def
      split: sum.splits exn.splits if_splits)

lemma first_attempt_Inl:
  "fst (first_attempt p vid px) = Inl e \<Longrightarrow> \<exists>m. e = HTTPException 503 (blocking_detail m)"
  by (auto simp: first_attempt_def second_attempt_def third_attempt_def Let_def
      split: prod.splits sum.splits)

lemma get_transcript_Inl:
  assumes "vid \<noteq> []" and "fst (get_transcript p vid proxy) = Inl x"
  shows "(\<exists>m. x = HTTPException 503 (blocking_detail m))
         \<or> (\<exists>msg. x = HTTPException 500 (''Error retrieving transcript: '' @ msg))"
proof (cases "fst (first_attempt p vid (proxies_of proxy))")
  case (Inl e)
  with first_attempt_Inl [OF Inl] assms show ?thesis
    by (auto simp: get_transcript_unfold reraise_HTTP split: prod.splits)
next
  case (Inr es)
  with assms have r: "reraise transcript_error (format_response vid None proxy es) = Inl x"
    by (auto simp: get_transcript_unfold split: prod.splits)
  then obtain y where y: "format_response vid None proxy es = Inl y"
    by (cases "format_response vid None proxy es") (auto simp: reraise_def)
  from format_errors_unknown [OF format_entries_Inl [OF format_response_Inl [OF y]]]
  obtain msg where "y = Exception msg" "\<not> sublist ''No transcripts were found'' msg"
    "\<not> sublist ''Video unavailable'' msg" by blast
  with r y show ?thesis
    by (auto simp: reraise_def transcript_error_def)
qed

lemma get_transcript_not_400:
  assumes "vid \<noteq> []"
  shows "fst (get_transcript p vid proxy) \<noteq> Inl (HTTPException 400 d)"
  using get_transcript_Inl [OF assms] by fastforce

lemma language_error_not_400: "language_error lc m \<noteq> HTTPException 400 d"
  by (simp add: language_error_def)

lemma languages_error_not_400: "languages_error m \<noteq> HTTPException 400 d"
  by (simp add: languages_error_def)

lemma format_response_not_HTTP: "format_response vid lang proxy es \<noteq> Inl (HTTPException s d)"
proof
  assume "format_response vid lang proxy es = Inl (HTTPException s d)"
  from format_errors_unknown [OF format_entries_Inl [OF format_response_Inl [OF this]]]
  show False by simp
qed

lemma get_transcript_with_language_not_400:
  assumes "vid \<noteq> []"
  shows "fst (get_transcript_with_language p lc vid proxy) \<noteq> Inl (HTTPException 400 d)"
proof (cases "api_get_transcript p vid (Some [lc]) (proxies_of proxy)")
  case (Inl e)
  with assms show ?thesis
    by (simp add: get_transcript_with_language_unfold)
next
  case (Inr es)
  with assms show ?thesis
    using format_response_not_HTTP [of vid "Some lc" proxy es] language_error_not_400
    by (auto simp: get_transcript_with_language_unfold reraise_def
        split: sum.splits exn.splits)
qed

lemma get_available_languages_not_400:
  assumes "vid \<noteq> []"
  shows "fst (get_available_languages p vid proxy) \<noteq> Inl (HTTPException 400 d)"
  using assms languages_error_not_400
  by (auto simp: get_available_languages_def get_available_languages_body_def reraise_def
      languages_error_def split: sum.splits exn.splits)

section \<open>What the routes bind\<close>

lemmas route_defs = dispatch_def match_route_def transcript_route_def language_route_def
  languages_route_def after_def segment_def other_slash_def serve_def

lemma no_slash_while:
  assumes "CHR ''/'' \<notin> set lc"
  shows "takeWhile (\<lambda>c. c \<noteq> CHR ''/'') (lc @ CHR ''/'' # ys) = lc"
    and "dropWhile (\<lambda>c. c \<noteq> CHR ''/'') (lc @ CHR ''/'' # ys) = CHR ''/'' # ys"
    and "dropWhile (\<lambda>c. c \<noteq> CHR ''/'') lc = []"
proof -
  have n: "\<And>x. x \<in> set lc \<Longrightarrow> x \<noteq> CHR ''/''"
    using assms by blast
  show "takeWhile (\<lambda>c. c \<noteq> CHR ''/'') (lc @ CHR ''/'' # ys) = lc"
    using n by (simp add: takeWhile_append2)
  show "dropWhile (\<lambda>c. c \<noteq> CHR ''/'') (lc @ CHR ''/'' # ys) = CHR ''/'' # ys"
    using n by (simp add: dropWhile_append2)
  show "dropWhile (\<lambda>c. c \<noteq> CHR ''/'') lc = []"
    using n by simp
qed

lemma strip_slashes:
  assumes "CHR ''/'' \<notin> set lc"
  shows "dropWhile (\<lambda>c. c = CHR ''/'') (rev lc @ CHR ''-'' # zs) = rev lc @ CHR ''-'' # zs"
proof (cases lc rule: rev_cases)
  case Nil
  then show ?thesis by simp
next
  case (snoc ys y)
  with assms show ?thesis by auto
qed

lemma empty_video_id_after_language:
  assumes "CHR ''/'' \<notin> set lc"
  shows "dispatch p (''/api/transcript-'' @ lc @ ''/'') proxy = (Not_Found, [])"
proof -
  have m: "match_route (''/api/transcript-'' @ lc @ ''/'') = None"
    using assms by (simp add: match_route_def transcript_route_def language_route_def
        languages_route_def after_def segment_def no_slash_while)
  have o: "other_slash (''/api/transcript-'' @ lc @ ''/'') = ''/api/transcript-'' @ lc"
    using assms by (simp add: other_slash_def strip_slashes)
  have m': "match_route (''/api/transcript-'' @ lc) = None"
    using assms
    by (simp add: no_slash_while match_route_def transcript_route_def language_route_def
        languages_route_def after_def segment_def)
  show ?thesis
    unfolding dispatch_def m o m' by simp
qed

lemma transcript_route_Some:
  "transcript_route path = Some r \<Longrightarrow> \<exists>v. r = Route_transcript v \<and> v \<noteq> []"
  by (auto simp: transcript_route_def segment_def split: option.splits if_splits)

lemma language_route_Some:
  "language_route path = Some r \<Longrightarrow> \<exists>lc v. r = Route_transcript_language lc v \<and> v \<noteq> []"
  by (auto simp: language_route_def segment_def Let_def
      split: option.splits list.splits if_splits)

lemma languages_route_Some:
  "languages_route path = Some r \<Longrightarrow> \<exists>v. r = Route_languages v \<and> v \<noteq> []"
  by (auto simp: languages_route_def segment_def split: option.splits if_splits)

lemma match_route_Some:
  assumes "match_route path = Some r"
  shows "r = Route_root \<or> r = Route_health
         \<or> (\<exists>v. r = Route_transcript v \<and> v \<noteq> [])
         \<or> (\<exists>lc v. r = Route_transcript_language lc v \<and> v \<noteq> [])
         \<or> (\<exists>v. r = Route_languages v \<and> v \<noteq> [])"
proof (cases "path = ''/''")
  case True
  with assms show ?thesis by (simp add: match_route_def)
next
  case False
  note root = this
  show ?thesis
  proof (cases "transcript_route path")
    case (Some a)
    with assms root transcript_route_Some [OF Some] show ?thesis
      by (simp add: match_route_def)
  next
    case None
    note n1 = this
    show ?thesis
    proof (cases "language_route path")
      case (Some a)
      with assms root n1 language_route_Some [OF Some] show ?thesis
        by (simp add: match_route_def)
    next
      case None
      note n2 = this
      show ?thesis
      proof (cases "languages_route path")
        case (Some a)
        with assms root n1 n2 languages_route_Some [OF Some] show ?thesis
          by (simp add: match_route_def)
      next
        case None
        with assms root n1 n2 show ?thesis
          by (simp add: match_route_def split: if_splits)
      qed
    qed
  qed
qed

lemma serve_not_400:
  assumes "match_route path = Some r"
  shows "fst (serve p r proxy) \<noteq> Transcript_reply (Inl (HTTPException 400 d))
         \<and> fst (serve p r proxy) \<noteq> Languages_reply (Inl (HTTPException 400 d))"
proof -
  consider "r = Route_root \<or> r = Route_health"
    | v where "r = Route_transcript v" "v \<noteq> []"
    | lc v where "r = Route_transcript_language lc v" "v \<noteq> []"
    | v where "r = Route_languages v" "v \<noteq> []"
    using match_route_Some [OF assms] by blast
  then show ?thesis
  proof cases
    case 1
    then show ?thesis by (auto simp: serve_def)
  next
    case 2
    with get_transcript_not_400 [of v p proxy d] show ?thesis
      by (cases "get_transcript p v proxy") (simp add: serve_def)
  next
    case 3
    with get_transcript_with_language_not_400 [of v p lc proxy d] show ?thesis
      by (cases "get_transcript_with_language p lc v proxy") (simp add: serve_def)
  next
    case 4
    with get_available_languages_not_400 [of v p proxy d] show ?thesis
      by (cases "get_available_languages p v proxy") (simp add: serve_def)
  qed
qed

section \<open>Running the handlers on the example providers\<close>

lemmas handler_defs = get_transcript_def get_transcript_body_def first_attempt_def
  second_attempt_def third_attempt_def find_and_fetch_def reraise_def
  get_transcript_with_language_def get_transcript_with_language_body_def
  suggest_alternatives_def get_available_languages_def get_available_languages_body_def

lemma example_id_nonempty: "example_id \<noteq> []"
  by (simp add: example_id_def)

lemma format_hello_world:
  "format_response example_id l px hello_world = Inr (hello_response l (px \<noteq> None))"
  by (simp add: format_response_def hello_world_def hello_response_def strip_def isspace_def)

section \<open>The shape of a successful transcript response\<close>

text \<open>
  C1. Whenever the default route or the language route returns a response, the provider
  returned a sequence of entries \<open>es\<close> (for the default route, at the step of the fallback
  chain that succeeded) and the response reflects it: \<open>total_entries\<close> is the length of
  \<open>transcript\<close>; \<open>transcript\<close> has one formatted entry per entry of \<open>es\<close>, in the same
  order, holding the values of the keys text, start and duration; and \<open>full_text\<close> is the
  texts of \<open>es\<close> in order, joined by one space, then stripped.
\<close>

theorem transcript_response_reflects_entries:
  "(fst (get_transcript p vid proxy) = Inr r \<longrightarrow>
      (\<exists>es. fst (first_attempt p vid (proxies_of proxy)) = Inr es \<and> reflects es r))
   \<and> (fst (get_transcript_with_language p lc vid proxy) = Inr r' \<longrightarrow>
      (\<exists>es. api_get_transcript p vid (Some [lc]) (proxies_of proxy) = Inr es \<and> reflects es r'))"
proof (intro conjI impI)
  assume "fst (get_transcript p vid proxy) = Inr r"
  from get_transcript_Inr [OF this] show
    "\<exists>es. fst (first_attempt p vid (proxies_of proxy)) = Inr es \<and> reflects es r"
    using format_response_Inr by blast
next
  assume "fst (get_transcript_with_language p lc vid proxy) = Inr r'"
  from get_transcript_with_language_Inr [OF this] show
    "\<exists>es. api_get_transcript p vid (Some [lc]) (proxies_of proxy) = Inr es \<and> reflects es r'"
    using format_response_Inr by blast
qed

text \<open>
  On the video with English captions both routes answer with the envelope of the two
  entries, whose \<open>full_text\<close> is \<^verbatim>\<open>hello world\<close>.
\<close>

theorem transcript_response_reflects_entries_witness:
  "fst (get_transcript only_english example_id None) = Inr (hello_response None False)
   \<and> fst (get_transcript_with_language only_english ''en'' example_id None)
       = Inr (hello_response (Some ''en'') False)
   \<and> fst (first_attempt only_english example_id (proxies_of None)) = Inr hello_world
   \<and> api_get_transcript only_english example_id (Some [''en'']) (proxies_of None) = Inr hello_world
   \<and> reflects hello_world (hello_response None False)
   \<and> reflects hello_world (hello_response (Some ''en'') False)
   \<and> full_text (hello_response None False) = ''hello world''
   \<and> total_entries (hello_response None False) = 2"
proof -
  have a: "fst (get_transcript only_english example_id None) = Inr (hello_response None False)"
    by (simp add: handler_defs only_english_def stub_def proxies_of_def example_id_nonempty
        format_hello_world)
  have b: "fst (get_transcript_with_language only_english ''en'' example_id None)
             = Inr (hello_response (Some ''en'') False)"
    by (simp add: handler_defs only_english_def stub_def proxies_of_def example_id_nonempty
        format_hello_world)
  have c: "fst (first_attempt only_english example_id (proxies_of None)) = Inr hello_world"
    and d: "api_get_transcript only_english example_id (Some [''en'']) (proxies_of None)
              = Inr hello_world"
    by (simp_all add: first_attempt_def only_english_def stub_def proxies_of_def)
  from transcript_response_reflects_entries
      [of only_english example_id None "hello_response None False" "''en''"
          "hello_response (Some ''en'') False"]
  have "reflects hello_world (hello_response None False)
        \<and> reflects hello_world (hello_response (Some ''en'') False)"
    using a b c d by simp
  then show ?thesis
    using a b c d by (simp add: hello_response_def)
qed

section \<open>The language route when the fetch fails\<close>

text \<open>
  C2. The claim: when the fetch in the requested language fails and the enumeration
  succeeds, the 404 error lists the available language codes. The handler builds that
  error (lines 124 to 127) but raises it inside the \<^verbatim>\<open>try\<close> whose clause
  \<^verbatim>\<open>except Exception\<close> (line 128) catches it, \<^verbatim>\<open>HTTPException\<close> being an
  \<^verbatim>\<open>Exception\<close>; the generic error of line 129 replaces it. On the video with English
  captions only, a request for \<^verbatim>\<open>fr\<close> is answered by the generic detail, not by the
  detail that names \<^verbatim>\<open>en\<close>.
\<close>

theorem language_route_hides_available_languages:
  "api_get_transcript only_english example_id (Some [''fr'']) None = Inl not_found_msg
   \<and> api_list_transcripts only_english example_id = Inr [english]
   \<and> get_transcript_with_language only_english ''fr'' example_id None
       = (Inl (HTTPException 404 ''No transcripts found for this video in language: fr''),
          [GetTranscript example_id (Some [''fr'']) None, ListTranscripts example_id])
   \<and> available_detail ''fr'' (map language_code [english])
       = ''No transcript found for language '' @ [CHR 0x27] @ ''fr'' @ [CHR 0x27]
         @ ''. Available languages: en''"
  by (simp add: handler_defs only_english_def stub_def proxies_of_def example_id_nonempty
      language_detail_def available_detail_def english_def)

section \<open>The error mapping of the default route\<close>

text \<open>
  C3, as stated, fails. The provider that refuses every call raises a message that
  contains \<^verbatim>\<open>No transcripts were found\<close> at the first step; all steps fail, and the
  answer is the 503 error, not the 404 one: the 503 error is an \<^verbatim>\<open>HTTPException\<close>, and
  the clause of line 86 raises it again before the mapping of lines 88 to 95 is reached.
\<close>

theorem step1_text_is_not_mapped_counterexample:
  "api_get_transcript blocked example_id None (proxies_of None) = Inl not_found_msg
   \<and> sublist ''No transcripts were found'' not_found_msg
   \<and> fst (find_and_fetch blocked example_id) = Inl ''Video unavailable''
   \<and> fst (get_transcript blocked example_id None)
       = Inl (HTTPException 503 (blocking_detail not_found_msg))
   \<and> fst (get_transcript blocked example_id None)
       \<noteq> Inl (HTTPException 404 ''No transcripts found for this video'')"
proof -
  have "sublist ''No transcripts were found'' not_found_msg"
    unfolding not_found_msg_def by code_simp
  moreover have "get_transcript blocked example_id None =
     (Inl (HTTPException 503 (blocking_detail not_found_msg)),
      [GetTranscript example_id None None,
       GetTranscript example_id (Some [''en'', ''en-US'', ''en-GB'']) None,
       ListTranscripts example_id])"
    by (simp add: handler_defs blocked_def stub_def proxies_of_def example_id_nonempty)
  ultimately show ?thesis
    by (simp add: blocked_def stub_def find_and_fetch_def)
qed

text \<open>
  C3, amended. For a non-empty \<^verbatim>\<open>video_id\<close> and entries that are dicts of strings
  and floats. The clause of lines 88 to 95 maps the text of an exception that is not an
  \<^verbatim>\<open>HTTPException\<close>: containing \<^verbatim>\<open>No transcripts were found\<close> gives 404, containing
  \<^verbatim>\<open>Video unavailable\<close> gives 404, anything else gives 500 with the text. The text of
  the first step's error never reaches it: when the chain is exhausted the answer is the
  503 error around that text, whatever it contains. What reaches it is an exception raised
  while the fetched entries are formatted, whose text contains neither pattern, so that
  the answer is the 500 error with that text. The default route never answers 404.
\<close>

theorem default_route_error_mapping:
  assumes "vid \<noteq> []"
  shows
    "(api_get_transcript (p :: 'n provider) vid None (proxies_of proxy) = Inl first_error
        \<and> fst (first_attempt p vid (proxies_of proxy)) = Inl e \<longrightarrow>
        fst (get_transcript p vid proxy) = Inl (HTTPException 503 (blocking_detail first_error)))
     \<and> (fst (first_attempt p vid (proxies_of proxy)) = Inr es
        \<and> format_entries es [] [] = Inl x \<longrightarrow>
        (\<exists>msg. x = Exception msg
           \<and> \<not> sublist ''No transcripts were found'' msg
           \<and> \<not> sublist ''Video unavailable'' msg
           \<and> fst (get_transcript p vid proxy)
               = Inl (HTTPException 500 (''Error retrieving transcript: '' @ msg))))
     \<and> fst (get_transcript p vid proxy) \<noteq> Inl (HTTPException 404 d)
     \<and> reraise transcript_error (Inl (Exception other) :: exn + 'n response)
         = Inl (if sublist ''No transcripts were found'' other
                then HTTPException 404 ''No transcripts found for this video''
                else if sublist ''Video unavailable'' other
                then HTTPException 404 ''Video not found or unavailable''
                else HTTPException 500 (''Error retrieving transcript: '' @ other))"
proof (intro conjI impI)
  assume a: "api_get_transcript p vid None (proxies_of proxy) = Inl first_error
        \<and> fst (first_attempt p vid (proxies_of proxy)) = Inl e"
  then have "e = HTTPException 503 (blocking_detail first_error)"
    by (auto simp: first_attempt_unfold split: sum.splits)
  with a assms show
    "fst (get_transcript p vid proxy) = Inl (HTTPException 503 (blocking_detail first_error))"
    by (auto simp: get_transcript_unfold reraise_HTTP split: prod.splits)
next
  assume a: "fst (first_attempt p vid (proxies_of proxy)) = Inr es
        \<and> format_entries es [] [] = Inl x"
  from format_errors_unknown [OF format_entries_Inl] a
  obtain msg where m: "x = Exception msg" "\<not> sublist ''No transcripts were found'' msg"
    "\<not> sublist ''Video unavailable'' msg" by blast
  with a assms have "fst (get_transcript p vid proxy)
               = Inl (HTTPException 500 (''Error retrieving transcript: '' @ msg))"
    by (auto simp: get_transcript_unfold format_response_def reraise_def transcript_error_def
        split: prod.splits)
  with m show "\<exists>msg. x = Exception msg
           \<and> \<not> sublist ''No transcripts were found'' msg
           \<and> \<not> sublist ''Video unavailable'' msg
           \<and> fst (get_transcript p vid proxy)
               = Inl (HTTPException 500 (''Error retrieving transcript: '' @ msg))"
    by blast
next
  show "fst (get_transcript p vid proxy) \<noteq> Inl (HTTPException 404 d)"
    using get_transcript_Inl [OF assms] by fastforce
next
  show "reraise transcript_error (Inl (Exception other) :: exn + 'n response)
         = Inl (if sublist ''No transcripts were found'' other
                then HTTPException 404 ''No transcripts found for this video''
                else if sublist ''Video unavailable'' other
                then HTTPException 404 ''Video not found or unavailable''
                else HTTPException 500 (''Error retrieving transcript: '' @ other))"
    by (simp add: reraise_def transcript_error_def)
qed

text \<open>
  The provider that refuses every call gets the 503, not the 404, for a first message
  that contains \<^verbatim>\<open>No transcripts were found\<close>. An entry without the key \<^verbatim>\<open>text\<close>
  raises \<^verbatim>\<open>KeyError\<close> in the loop, which the clause turns into the 500 error. Given
  an exception with one of the two patterns, the clause gives the 404 of that pattern.
\<close>

theorem default_route_error_mapping_witness:
  "example_id \<noteq> []
   \<and> api_get_transcript blocked example_id None (proxies_of None) = Inl not_found_msg
   \<and> fst (first_attempt blocked example_id (proxies_of None))
       = Inl (HTTPException 503 (blocking_detail not_found_msg))
   \<and> fst (get_transcript blocked example_id None)
       = Inl (HTTPException 503 (blocking_detail not_found_msg))
   \<and> fst (get_transcript blocked example_id None)
       \<noteq> Inl (HTTPException 404 ''No transcripts found for this video'')
   \<and> fst (first_attempt malformed example_id (proxies_of None))
       = Inr [[''start'' \<mapsto> Num 0, ''duration'' \<mapsto> Num 1]]
   \<and> format_entries [[''start'' \<mapsto> Num 0, ''duration'' \<mapsto> Num (1::real)]] [] []
       = Inl (KeyError ''text'')
   \<and> fst (get_transcript malformed example_id None)
       = Inl (HTTPException 500
               (''Error retrieving transcript: '' @ [CHR 0x27] @ ''text'' @ [CHR 0x27]))
   \<and> reraise transcript_error (Inl (Exception not_found_msg) :: exn + real response)
       = Inl (HTTPException 404 ''No transcripts found for this video'')
   \<and> reraise transcript_error (Inl (Exception ''Video unavailable'') :: exn + real response)
       = Inl (HTTPException 404 ''Video not found or unavailable'')"
proof -
  let ?es = "[[''start'' \<mapsto> Num 0, ''duration'' \<mapsto> Num 1]] :: real entry list"
  have a: "api_get_transcript blocked example_id None (proxies_of None) = Inl not_found_msg
           \<and> fst (first_attempt blocked example_id (proxies_of None))
               = Inl (HTTPException 503 (blocking_detail not_found_msg))"
    by (simp add: handler_defs blocked_def stub_def proxies_of_def)
  have b: "fst (first_attempt malformed example_id (proxies_of None)) = Inr ?es
           \<and> format_entries ?es [] [] = Inl (KeyError ''text'')"
    by (simp add: first_attempt_def malformed_def stub_def proxies_of_def)
  have c: "sublist ''No transcripts were found'' not_found_msg"
    unfolding not_found_msg_def by code_simp
  have d: "\<not> sublist ''No transcripts were found'' ''Video unavailable''"
    "sublist ''Video unavailable'' ''Video unavailable''"
    by (simp_all add: sublist_code)
  from default_route_error_mapping [OF example_id_nonempty, where p = blocked and proxy = None
         and first_error = not_found_msg
         and e = "HTTPException 503 (blocking_detail not_found_msg)"
         and d = "''No transcripts found for this video''" and other = not_found_msg]
       default_route_error_mapping [OF example_id_nonempty, where p = malformed and proxy = None
         and es = ?es and x = "KeyError ''text''" and other = "''Video unavailable''"
         and d = "''No transcripts found for this video''"]
  show ?thesis
    using a b c d example_id_nonempty by (simp add: KeyError_def)
qed

section \<open>Exhausted fallbacks\<close>

text \<open>
  C4. For a non-empty \<^verbatim>\<open>video_id\<close>: if the fetch without languages, the fetch
  restricted to en, en-US, en-GB and the enumerate-find-fetch step all raise, the default
  route fails with status 503, and its detail contains the three hints (a different video,
  a proxy, a later retry) and ends with the message of the first step.
\<close>

theorem exhausted_fallbacks_give_503:
  assumes "vid \<noteq> []"
    and "api_get_transcript p vid None (proxies_of proxy) = Inl first_error"
    and "api_get_transcript p vid (Some [''en'', ''en-US'', ''en-GB'']) None = Inl second_error"
    and "fst (find_and_fetch p vid) = Inl third_error"
  shows "fst (get_transcript p vid proxy) = Inl (HTTPException 503 (blocking_detail first_error))
     \<and> sublist ''Different video ID'' (blocking_detail first_error)
     \<and> sublist ''Add ?proxy=YOUR_PROXY_URL'' (blocking_detail first_error)
     \<and> sublist ''Try again later'' (blocking_detail first_error)
     \<and> suffix first_error (blocking_detail first_error)"
proof -
  have "fst (get_transcript p vid proxy) = Inl (HTTPException 503 (blocking_detail first_error))"
    using assms by (simp add: get_transcript_unfold first_attempt_unfold reraise_HTTP)
  then show ?thesis
    using blocking_detail_hints [of first_error] by simp
qed

theorem exhausted_fallbacks_give_503_witness:
  "example_id \<noteq> []
   \<and> api_get_transcript blocked example_id None (proxies_of None) = Inl not_found_msg
   \<and> api_get_transcript blocked example_id (Some [''en'', ''en-US'', ''en-GB'']) None
       = Inl not_found_msg
   \<and> fst (find_and_fetch blocked example_id) = Inl ''Video unavailable''
   \<and> fst (get_transcript blocked example_id None)
       = Inl (HTTPException 503 (blocking_detail not_found_msg))
   \<and> sublist ''Different video ID'' (blocking_detail not_found_msg)
   \<and> sublist ''Add ?proxy=YOUR_PROXY_URL'' (blocking_detail not_found_msg)
   \<and> sublist ''Try again later'' (blocking_detail not_found_msg)
   \<and> suffix not_found_msg (blocking_detail not_found_msg)"
proof -
  have h1: "api_get_transcript blocked example_id None (proxies_of None) = Inl not_found_msg"
    and h2: "api_get_transcript blocked example_id (Some [''en'', ''en-US'', ''en-GB'']) None
               = Inl not_found_msg"
    and h3: "fst (find_and_fetch blocked example_id) = Inl ''Video unavailable''"
    by (simp_all add: blocked_def stub_def find_and_fetch_def)
  from exhausted_fallbacks_give_503 [OF example_id_nonempty h1 h2 h3]
  show ?thesis
    using example_id_nonempty h1 h2 h3 by simp
qed

section \<open>The order of the fallback steps\<close>

text \<open>
  C5, as stated, fails in one point: the first fetch is not routed through every proxy
  that is supplied. With the empty string as proxy (supplied: \<open>proxy_used\<close> is true)
  the test of line 36 is false, and the first fetch is made without proxies.
\<close>

theorem empty_proxy_is_not_routed_counterexample:
  "Some [] \<noteq> (None :: string option)
   \<and> get_transcript only_english example_id (Some [])
       = (Inr (hello_response None True), [GetTranscript example_id None None])"
  by (simp add: handler_defs only_english_def stub_def proxies_of_def example_id_nonempty
      format_hello_world)

text \<open>
  C5, amended. For a non-empty \<^verbatim>\<open>video_id\<close>, the default route stops at the first step
  that succeeds. The first call is the fetch without languages; its proxies \<open>px\<close> are the
  dict with the proxy under \<^verbatim>\<open>http\<close> and \<^verbatim>\<open>https\<close> when a non-empty proxy is
  supplied, and none when the proxy is absent or the empty string. If that call returns,
  it is the only call and the answer is made of its entries. If it raises and the fetch
  restricted to en, en-US, en-GB (without proxies) returns, these are the two calls, in
  this order, and the answer is made of the second one's entries. If both raise and the
  enumeration, the search for en or en-US in it and the fetch of the transcript found
  return, the calls are these five, in this order, and the answer is made of the entries
  fetched last. A response of this route has no language.
\<close>

theorem default_fallback_order:
  assumes "vid \<noteq> []"
    and "px = (case proxy of
                 None \<Rightarrow> None
               | Some u \<Rightarrow> if u = [] then None else Some [(''http'', u), (''https'', u)])"
  shows
    "(api_get_transcript p vid None px = Inr es \<longrightarrow>
        get_transcript p vid proxy =
          (reraise transcript_error (format_response vid None proxy es),
           [GetTranscript vid None px]))
     \<and> (api_get_transcript p vid None px = Inl e1
        \<and> api_get_transcript p vid (Some [''en'', ''en-US'', ''en-GB'']) None = Inr es \<longrightarrow>
        get_transcript p vid proxy =
          (reraise transcript_error (format_response vid None proxy es),
           [GetTranscript vid None px,
            GetTranscript vid (Some [''en'', ''en-US'', ''en-GB'']) None]))
     \<and> (api_get_transcript p vid None px = Inl e1
        \<and> api_get_transcript p vid (Some [''en'', ''en-US'', ''en-GB'']) None = Inl e2
        \<and> api_list_transcripts p vid = Inr ts
        \<and> find_transcript p ts [''en'', ''en-US''] = Inr t
        \<and> fetch p t = Inr es \<longrightarrow>
        get_transcript p vid proxy =
          (reraise transcript_error (format_response vid None proxy es),
           [GetTranscript vid None px,
            GetTranscript vid (Some [''en'', ''en-US'', ''en-GB'']) None,
            ListTranscripts vid, FindTranscript ts [''en'', ''en-US''], Fetch t]))
     \<and> (fst (get_transcript p vid proxy) = Inr r \<longrightarrow> response.language r = None)"
proof -
  have px: "px = proxies_of proxy"
    using assms(2) by (simp add: proxies_of_def)
  show ?thesis
    unfolding px
  proof (intro conjI impI)
    assume "api_get_transcript p vid None (proxies_of proxy) = Inr es"
    with assms(1) show "get_transcript p vid proxy =
        (reraise transcript_error (format_response vid None proxy es),
         [GetTranscript vid None (proxies_of proxy)])"
      by (simp add: get_transcript_unfold first_attempt_unfold)
  next
    assume "api_get_transcript p vid None (proxies_of proxy) = Inl e1
          \<and> api_get_transcript p vid (Some [''en'', ''en-US'', ''en-GB'']) None = Inr es"
    with assms(1) show "get_transcript p vid proxy =
        (reraise transcript_error (format_response vid None proxy es),
         [GetTranscript vid None (proxies_of proxy),
          GetTranscript vid (Some [''en'', ''en-US'', ''en-GB'']) None])"
      by (simp add: get_transcript_unfold first_attempt_unfold)
  next
    assume "api_get_transcript p vid None (proxies_of proxy) = Inl e1
          \<and> api_get_transcript p vid (Some [''en'', ''en-US'', ''en-GB'']) None = Inl e2
          \<and> api_list_transcripts p vid = Inr ts
          \<and> find_transcript p ts [''en'', ''en-US''] = Inr t
          \<and> fetch p t = Inr es"
    with assms(1) show "get_transcript p vid proxy =
        (reraise transcript_error (format_response vid None proxy es),
         [GetTranscript vid None (proxies_of proxy),
          GetTranscript vid (Some [''en'', ''en-US'', ''en-GB'']) None,
          ListTranscripts vid, FindTranscript ts [''en'', ''en-US''], Fetch t])"
      by (simp add: get_transcript_unfold first_attempt_unfold find_and_fetch_def)
  next
    assume "fst (get_transcript p vid proxy) = Inr r"
    from get_transcript_Inr [OF this] show "response.language r = None"
      using format_response_Inr by blast
  qed
qed

text \<open>
  The three cases, each on its provider, with a proxy: the proxies dict goes with the first
  call only. Without a proxy the first call has none.
\<close>

theorem default_fallback_order_witness:
  "example_id \<noteq> []
   \<and> get_transcript only_english example_id (Some ''http://10.0.0.1:8080'')
       = (Inr (hello_response None True),
          [GetTranscript example_id None
             (Some [(''http'', ''http://10.0.0.1:8080''), (''https'', ''http://10.0.0.1:8080'')])])
   \<and> get_transcript needs_languages example_id (Some ''http://10.0.0.1:8080'')
       = (Inr (hello_response None True),
          [GetTranscript example_id None
             (Some [(''http'', ''http://10.0.0.1:8080''), (''https'', ''http://10.0.0.1:8080'')]),
           GetTranscript example_id (Some [''en'', ''en-US'', ''en-GB'']) None])
   \<and> get_transcript needs_listing example_id (Some ''http://10.0.0.1:8080'')
       = (Inr (hello_response None True),
          [GetTranscript example_id None
             (Some [(''http'', ''http://10.0.0.1:8080''), (''https'', ''http://10.0.0.1:8080'')]),
           GetTranscript example_id (Some [''en'', ''en-US'', ''en-GB'']) None,
           ListTranscripts example_id, FindTranscript [english] [''en'', ''en-US''],
           Fetch english])
   \<and> get_transcript needs_languages example_id None
       = (Inr (hello_response None False),
          [GetTranscript example_id None None,
           GetTranscript example_id (Some [''en'', ''en-US'', ''en-GB'']) None])
   \<and> response.language (hello_response None True) = None"
proof -
  let ?u = "''http://10.0.0.1:8080''"
  let ?px = "Some [(''http'', ?u), (''https'', ?u)]"
  have px: "?px = (case Some ?u of None \<Rightarrow> None
              | Some u \<Rightarrow> if u = [] then None else Some [(''http'', u), (''https'', u)])"
    by simp
  have nopx: "None = (case None :: string option of None \<Rightarrow> None
              | Some u \<Rightarrow> if u = [] then None else Some [(''http'', u), (''https'', u)])"
    by simp
  have s1: "api_get_transcript only_english example_id None ?px = Inr hello_world"
    by (simp add: only_english_def stub_def)
  have s2: "api_get_transcript needs_languages example_id None ?px = Inl ''Too many requests''
            \<and> api_get_transcript needs_languages example_id None None = Inl ''Too many requests''
            \<and> api_get_transcript needs_languages example_id (Some [''en'', ''en-US'', ''en-GB'']) None
              = Inr hello_world"
    by (simp add: needs_languages_def stub_def)
  have s3: "api_get_transcript needs_listing example_id None ?px = Inl ''Too many requests''
            \<and> api_get_transcript needs_listing example_id (Some [''en'', ''en-US'', ''en-GB'']) None
              = Inl ''Too many requests''
            \<and> api_list_transcripts needs_listing example_id = Inr [english]
            \<and> find_transcript needs_listing [english] [''en'', ''en-US''] = Inr english
            \<and> fetch needs_listing english = Inr hello_world"
    by (simp add: needs_listing_def stub_def english_def)
  have f: "reraise transcript_error (format_response example_id None (Some ?u) hello_world)
             = Inr (hello_response None True)"
     "reraise transcript_error (format_response example_id None None hello_world)
             = Inr (hello_response None False)"
    by (simp_all add: format_hello_world reraise_def)
  from default_fallback_order [OF example_id_nonempty px, where p = only_english
         and es = hello_world]
       default_fallback_order [OF example_id_nonempty px, where p = needs_languages
         and es = hello_world and ?e1.0 = "''Too many requests''"
         and r = "hello_response None True"]
       default_fallback_order [OF example_id_nonempty px, where p = needs_listing
         and es = hello_world and ?e1.0 = "''Too many requests''"
         and ?e2.0 = "''Too many requests''" and ts = "[english]" and t = english]
       default_fallback_order [OF example_id_nonempty nopx, where p = needs_languages
         and es = hello_world and ?e1.0 = "''Too many requests''"]
  show ?thesis
    using s1 s2 s3 example_id_nonempty by (simp add: f hello_response_def)
qed

section \<open>No substitution of the requested language\<close>

text \<open>
  C6. For a non-empty \<^verbatim>\<open>video_id\<close>, the calls of the language route that fetch captions
  are exactly one: the fetch restricted to the requested code. If it raises, the route
  fails. A response of this route has the requested code as its language and reflects the
  entries of that one fetch.
\<close>

theorem language_route_single_fetch:
  assumes "vid \<noteq> []"
  shows
    "filter is_fetch (snd (get_transcript_with_language p lc vid proxy))
       = [GetTranscript vid (Some [lc]) (proxies_of proxy)]
     \<and> (api_get_transcript p vid (Some [lc]) (proxies_of proxy) = Inl e \<longrightarrow>
          isl (fst (get_transcript_with_language p lc vid proxy)))
     \<and> (fst (get_transcript_with_language p lc vid proxy) = Inr r \<longrightarrow>
          response.language r = Some lc
          \<and> (\<exists>es. api_get_transcript p vid (Some [lc]) (proxies_of proxy) = Inr es
                  \<and> reflects es r))"
proof (intro conjI impI)
  show "filter is_fetch (snd (get_transcript_with_language p lc vid proxy))
       = [GetTranscript vid (Some [lc]) (proxies_of proxy)]"
    using assms by (simp add: get_transcript_with_language_unfold split: sum.splits)
next
  assume "api_get_transcript p vid (Some [lc]) (proxies_of proxy) = Inl e"
  with assms show "isl (fst (get_transcript_with_language p lc vid proxy))"
    by (simp add: get_transcript_with_language_unfold)
next
  assume "fst (get_transcript_with_language p lc vid proxy) = Inr r"
  from get_transcript_with_language_Inr [OF this]
  show "response.language r = Some lc"
    using format_response_Inr by blast
next
  assume "fst (get_transcript_with_language p lc vid proxy) = Inr r"
  from get_transcript_with_language_Inr [OF this]
  show "\<exists>es. api_get_transcript p vid (Some [lc]) (proxies_of proxy) = Inr es \<and> reflects es r"
    using format_response_Inr by blast
qed

text \<open>
  On the video with English captions only: \<^verbatim>\<open>fr\<close> fails after its one fetch, \<^verbatim>\<open>en\<close>
  succeeds with language \<^verbatim>\<open>en\<close>.
\<close>

theorem language_route_single_fetch_witness:
  "example_id \<noteq> []
   \<and> filter is_fetch (snd (get_transcript_with_language only_english ''fr'' example_id None))
       = [GetTranscript example_id (Some [''fr'']) (proxies_of None)]
   \<and> api_get_transcript only_english example_id (Some [''fr'']) (proxies_of None)
       = Inl not_found_msg
   \<and> isl (fst (get_transcript_with_language only_english ''fr'' example_id None))
   \<and> fst (get_transcript_with_language only_english ''en'' example_id None)
       = Inr (hello_response (Some ''en'') False)
   \<and> response.language (hello_response (Some ''en'') False) = Some ''en''
   \<and> api_get_transcript only_english example_id (Some [''en'']) (proxies_of None)
       = Inr hello_world"
proof -
  have a: "api_get_transcript only_english example_id (Some [''fr'']) (proxies_of None)
             = Inl not_found_msg"
    and b: "api_get_transcript only_english example_id (Some [''en'']) (proxies_of None)
             = Inr hello_world"
    by (simp_all add: only_english_def stub_def)
  have c: "fst (get_transcript_with_language only_english ''en'' example_id None)
             = Inr (hello_response (Some ''en'') False)"
    by (simp add: handler_defs only_english_def stub_def proxies_of_def example_id_nonempty
        format_hello_world)
  from language_route_single_fetch [OF example_id_nonempty, of only_english "''fr''" None
         not_found_msg]
       language_route_single_fetch [OF example_id_nonempty, of only_english "''en''" None _
         "hello_response (Some ''en'') False"]
  show ?thesis
    using a b c example_id_nonempty by simp
qed

section \<open>Empty video identifier\<close>

text \<open>
  C7, as stated, fails: a request whose \<^verbatim>\<open>video_id\<close> is the empty string matches no
  route, and the router answers 404, not 400.
\<close>

theorem empty_video_id_request_counterexample:
  "dispatch only_english ''/api/transcript/'' None = (Not_Found, [])
   \<and> fst (dispatch only_english ''/api/transcript/'' None)
       \<noteq> Transcript_reply (Inl (HTTPException 400 ''Invalid YouTube video ID or URL''))"
  by (simp add: route_defs)

text \<open>
  C7, amended. Each of the three handlers, called with an empty \<^verbatim>\<open>video_id\<close>, raises
  the 400 error before any call into the provider. No request gets there: the path with
  an empty \<^verbatim>\<open>video_id\<close> under each of the three templates matches no route and is
  answered by the router's 404, with no call into the provider, and no request at all is
  answered by a handler's 400.
\<close>

theorem empty_video_id_is_not_routed:
  "get_transcript p [] proxy
     = (Inl (HTTPException 400 ''Invalid YouTube video ID or URL''), [])
   \<and> get_transcript_with_language p lc [] proxy
     = (Inl (HTTPException 400 ''Invalid YouTube video ID or URL''), [])
   \<and> get_available_languages p [] proxy
     = (Inl (HTTPException 400 ''Invalid YouTube video ID or URL''), [])
   \<and> dispatch p ''/api/transcript/'' proxy = (Not_Found, [])
   \<and> (CHR ''/'' \<notin> set lc \<longrightarrow>
        dispatch p (''/api/transcript-'' @ lc @ ''/'') proxy = (Not_Found, []))
   \<and> dispatch p ''/api/transcript_languages/'' proxy = (Not_Found, [])
   \<and> fst (dispatch p path proxy) \<noteq> Transcript_reply (Inl (HTTPException 400 d))
   \<and> fst (dispatch p path proxy) \<noteq> Languages_reply (Inl (HTTPException 400 d))"
proof (intro conjI impI)
  show "get_transcript p [] proxy
     = (Inl (HTTPException 400 ''Invalid YouTube video ID or URL''), [])"
    by (simp add: get_transcript_def get_transcript_body_def reraise_def)
  show "get_transcript_with_language p lc [] proxy
     = (Inl (HTTPException 400 ''Invalid YouTube video ID or URL''), [])"
    by (simp add: get_transcript_with_language_def get_transcript_with_language_body_def
        reraise_def)
  show "get_available_languages p [] proxy
     = (Inl (HTTPException 400 ''Invalid YouTube video ID or URL''), [])"
    by (simp add: get_available_languages_def get_available_languages_body_def reraise_def)
  show "dispatch p ''/api/transcript/'' proxy = (Not_Found, [])"
    by (simp add: route_defs)
  show "dispatch p ''/api/transcript_languages/'' proxy = (Not_Found, [])"
    by (simp add: route_defs)
next
  assume "CHR ''/'' \<notin> set lc"
  then show "dispatch p (''/api/transcript-'' @ lc @ ''/'') proxy = (Not_Found, [])"
    by (rule empty_video_id_after_language)
next
  show "fst (dispatch p path proxy) \<noteq> Transcript_reply (Inl (HTTPException 400 d))"
  proof (cases "match_route path")
    case None
    then show ?thesis by (simp add: dispatch_def)
  next
    case (Some r)
    with serve_not_400 [OF Some, of p proxy d] show ?thesis
      by (simp add: dispatch_def)
  qed
next
  show "fst (dispatch p path proxy) \<noteq> Languages_reply (Inl (HTTPException 400 d))"
  proof (cases "match_route path")
    case None
    then show ?thesis by (simp add: dispatch_def)
  next
    case (Some r)
    with serve_not_400 [OF Some, of p proxy d] show ?thesis
      by (simp add: dispatch_def)
  qed
qed

text \<open>
  The three paths with an empty \<^verbatim>\<open>video_id\<close>, a path with one, and a path with a
  trailing slash.
\<close>

theorem empty_video_id_is_not_routed_witness:
  "CHR ''/'' \<notin> set ''en''
   \<and> dispatch only_english ''/api/transcript-en/'' None = (Not_Found, [])
   \<and> dispatch only_english ''/api/transcript/'' None = (Not_Found, [])
   \<and> dispatch only_english ''/api/transcript_languages/'' None = (Not_Found, [])
   \<and> dispatch only_english ''/api/transcript-en/dQw4w9WgXcQ'' None
       = (Transcript_reply (Inr (hello_response (Some ''en'') False)),
          [GetTranscript example_id (Some [''en'']) None])
   \<and> dispatch only_english ''/api/transcript/dQw4w9WgXcQ/'' None
       = (Redirect ''/api/transcript/dQw4w9WgXcQ'', [])"
proof -
  have a: "CHR ''/'' \<notin> set ''en''" by simp
  have b: "dispatch only_english ''/api/transcript-en/dQw4w9WgXcQ'' None
       = (Transcript_reply (Inr (hello_response (Some ''en'') False)),
          [GetTranscript example_id (Some [''en'']) None])"
    using format_hello_world [of "Some ''en''" None]
    by (simp add: route_defs handler_defs only_english_def stub_def proxies_of_def
        example_id_def)
  have c: "dispatch only_english ''/api/transcript/dQw4w9WgXcQ/'' None
       = (Redirect ''/api/transcript/dQw4w9WgXcQ'', [])"
    by (simp add: route_defs)
  from empty_video_id_is_not_routed [of only_english None "''en''"]
  show ?thesis
    using a b c by simp
qed

section \<open>The proxy parameter\<close>

text \<open>
  C8. The language-listing route does not use its proxy parameter for the enumeration:
  two requests that differ in the proxy only make the same calls, fail with the same error
  or succeed with responses that are equal once \<open>proxy_used\<close> is set to the same value.
\<close>

theorem languages_route_ignores_proxy:
  "snd (get_available_languages p vid proxy) = snd (get_available_languages p vid proxy')
   \<and> map_sum id (\<lambda>r. r\<lparr>languages_response.proxy_used := b\<rparr>)
        (fst (get_available_languages p vid proxy))
     = map_sum id (\<lambda>r. r\<lparr>languages_response.proxy_used := b\<rparr>)
        (fst (get_available_languages p vid proxy'))"
  by (simp add: get_available_languages_def get_available_languages_body_def reraise_def Let_def
      split: sum.splits exn.splits)

text \<open>
  C9. In every response of the three data-returning routes, \<open>proxy_used\<close> says whether
  the query parameter was present, whatever was passed on to the provider.
\<close>

theorem proxy_used_is_presence:
  "(fst (get_transcript p vid proxy) = Inr r \<longrightarrow> response.proxy_used r = (proxy \<noteq> None))
   \<and> (fst (get_transcript_with_language p lc vid proxy) = Inr r' \<longrightarrow>
        response.proxy_used r' = (proxy \<noteq> None))
   \<and> (fst (get_available_languages p vid proxy) = Inr r'' \<longrightarrow>
        languages_response.proxy_used r'' = (proxy \<noteq> None))"
proof (intro conjI impI)
  assume "fst (get_transcript p vid proxy) = Inr r"
  from get_transcript_Inr [OF this] show "response.proxy_used r = (proxy \<noteq> None)"
    using format_response_Inr by blast
next
  assume "fst (get_transcript_with_language p lc vid proxy) = Inr r'"
  from get_transcript_with_language_Inr [OF this]
  show "response.proxy_used r' = (proxy \<noteq> None)"
    using format_response_Inr by blast
next
  assume "fst (get_available_languages p vid proxy) = Inr r''"
  then show "languages_response.proxy_used r'' = (proxy \<noteq> None)"
    by (rule get_available_languages_Inr)
qed

text \<open>
  With the empty string as proxy, present but falsy: no proxies dict is passed to the
  provider, and \<open>proxy_used\<close> is true in all three responses.
\<close>

theorem proxy_used_is_presence_witness:
  "get_transcript only_english example_id (Some [])
     = (Inr (hello_response None True), [GetTranscript example_id None None])
   \<and> get_transcript_with_language only_english ''en'' example_id (Some [])
     = (Inr (hello_response (Some ''en'') True), [GetTranscript example_id (Some [''en'']) None])
   \<and> get_available_languages only_english example_id (Some [])
     = (Inr \<lparr>languages_response.video_id = example_id, available_languages = [english],
             total_languages = 1, languages_response.proxy_used = True\<rparr>,
        [ListTranscripts example_id])
   \<and> response.proxy_used (hello_response None True)
   \<and> response.proxy_used (hello_response (Some ''en'') True)"
proof -
  let ?r = "\<lparr>languages_response.video_id = example_id, available_languages = [english],
     total_languages = 1, languages_response.proxy_used = True\<rparr>"
  have a: "get_transcript only_english example_id (Some [])
             = (Inr (hello_response None True), [GetTranscript example_id None None])"
    by (simp add: handler_defs only_english_def stub_def proxies_of_def example_id_nonempty
        format_hello_world)
  have b: "get_transcript_with_language only_english ''en'' example_id (Some [])
             = (Inr (hello_response (Some ''en'') True),
                [GetTranscript example_id (Some [''en'']) None])"
    by (simp add: handler_defs only_english_def stub_def proxies_of_def example_id_nonempty
        format_hello_world)
  have c: "get_available_languages only_english example_id (Some [])
             = (Inr ?r, [ListTranscripts example_id])"
    by (simp add: handler_defs only_english_def stub_def proxies_of_def example_id_nonempty
        english_def)
  from proxy_used_is_presence [of only_english example_id "Some []" "hello_response None True"
         "''en''" "hello_response (Some ''en'') True" ?r]
  show ?thesis
    using a b c by simp
qed

section \<open>Every failed fetch of the language route is a 404\<close>

text \<open>
  C10. For a non-empty \<^verbatim>\<open>video_id\<close>: if the fetch in the requested language raises,
  whatever its message, the language route fails with status 404 and the generic detail
  that names the requested language. The mapping of lines 155 to 162, which would give 500
  for a message it does not know, is not applied to it.
\<close>

theorem language_route_fetch_failure_404:
  assumes "vid \<noteq> []"
    and "api_get_transcript p vid (Some [lc]) (proxies_of proxy) = Inl msg"
  shows "fst (get_transcript_with_language p lc vid proxy)
           = Inl (HTTPException 404 (''No transcripts found for this video in language: '' @ lc))"
  using assms by (simp add: get_transcript_with_language_unfold language_detail_def)

text \<open>A message that the mapping would turn into the 500 error still gives 404.\<close>

theorem language_route_fetch_failure_404_witness:
  "example_id \<noteq> []
   \<and> api_get_transcript needs_listing example_id (Some [''de'']) (proxies_of None)
       = Inl ''Too many requests''
   \<and> language_error ''de'' ''Too many requests''
       = HTTPException 500 ''Error retrieving transcript: Too many requests''
   \<and> fst (get_transcript_with_language needs_listing ''de'' example_id None)
       = Inl (HTTPException 404 ''No transcripts found for this video in language: de'')"
proof -
  have a: "api_get_transcript needs_listing example_id (Some [''de'']) (proxies_of None)
             = Inl ''Too many requests''"
    by (simp add: needs_listing_def stub_def)
  have b: "language_error ''de'' ''Too many requests''
             = HTTPException 500 ''Error retrieving transcript: Too many requests''"
    by (simp add: language_error_def sublist_code)
  from language_route_fetch_failure_404 [OF example_id_nonempty a]
  show ?thesis
    using a b example_id_nonempty by simp
qed

end
